theory Spec2Isabelle
  imports Main
begin

section \<open>The authorization controller of the OIDC provider\<close>

text \<open>
  A shallow embedding of \<^verbatim>\<open>src/modules/auth/auth.controller.ts\<close> (class
  \<^verbatim>\<open>AuthController\<close>). A handler that mutates the session object and may throw
  becomes a function from the session to the pair of the session as the handler leaves it
  and either the thrown exception (\<open>Inl\<close>) or the response (\<open>Inr\<close>): a mutation made
  before a throw stays visible in the first component, as it does in the session object.
  An optional property (\<^verbatim>\<open>x?: T\<close>) is an \<open>option\<close>, with \<open>None\<close> for
  \<^verbatim>\<open>undefined\<close>. Strings are byte strings.
\<close>

subsection \<open>Data model\<close>

text \<open>
  The enumerations, the \<^verbatim>\<open>Client\<close> entity and \<^verbatim>\<open>InteractionModel\<close> are
  imported by the controller from modules outside the source tree; they are declared here
  with the members and fields the controller reads and writes.
\<close>

datatype ResponseTypeEnum = RT_code | RT_id_token | RT_token

datatype Oauth2AndOidcErrorsEnum = unauthorized_client | invalid_request

datatype AuthRequestRequiredParamters = P_client_id | P_redirect_uri

type_synonym ScopeEnum = string
type_synonym ResponseModeEnum = string
type_synonym AuthDisplay = string
type_synonym AuthPrompt = string

definition AuthPrompt_create :: AuthPrompt where
  \<comment> \<open>Modelled from the spec: the value of \<^verbatim>\<open>AuthPrompt.create\<close>, an enum member
      declared outside the source tree ("prompt == create").\<close>
  "AuthPrompt_create = ''create''"

text \<open>
  The client record the registry returns. \<^verbatim>\<open>redirect_uris\<close> is the comma-separated list of
  the registered redirect URIs; \<open>None\<close> is a record in which it is missing, \<^verbatim>\<open>null\<close> or
  not a string.
\<close>

record Client =
  redirect_uris :: "string option"

record InteractionModel =
  loginAttempts :: "int option"
  clientIp :: "string option"
  client :: "Client option"
  client_id :: "string option"
  redirect_uri :: "string option"
  scope :: "ScopeEnum list option"
  response_type :: "ResponseTypeEnum list option"
  state :: "string option"
  response_mode :: "ResponseModeEnum option"
  nonce :: "string option"
  display :: "AuthDisplay option"
  prompt :: "AuthPrompt option"
  max_age :: "int option"
  ui_locales :: "string option"
  id_token_hint :: "string option"
  login_hint :: "string option"
  acr_values :: "string option"
  code :: "string option"
  id_token :: "string option"
  access_token :: "string option"

text \<open>The body of \<^verbatim>\<open>POST /auth/login\<close> (\<^verbatim>\<open>LoginDto\<close>).\<close>

record LoginDto =
  dto_email :: "string option"
  dto_password :: "string option"

text \<open>The session object the framework hands to every handler.\<close>

record Session =
  interaction :: "InteractionModel option"
  email :: "string option"
  password :: "string option"

text \<open>
  The Express request, as far as \<^verbatim>\<open>getAuth\<close> reads it: \<open>None\<close> when the request has no
  own property \<^verbatim>\<open>clientIp\<close>, \<open>Some v\<close> when it has one, of value \<open>v\<close> (which may be
  \<^verbatim>\<open>undefined\<close>).
\<close>

record Request =
  req_clientIp :: "string option option"

text \<open>
  The query parameters of \<^verbatim>\<open>GET /auth\<close>, after the validation pipes: the four required
  ones and the optional ones.
\<close>

record AuthQuery =
  q_client_id :: string
  q_redirect_uri :: string
  q_scope :: "ScopeEnum list"
  q_response_type :: "ResponseTypeEnum list"
  q_state :: "string option"
  q_response_mode :: "ResponseModeEnum option"
  q_nonce :: "string option"
  q_display :: "AuthDisplay option"
  q_prompt :: "AuthPrompt option"
  q_max_age :: "int option"
  q_ui_locales :: "string option"
  q_id_token_hint :: "string option"
  q_login_hint :: "string option"
  q_acr_values :: "string option"

text \<open>
  The exceptions the controller throws: \<^verbatim>\<open>OidcBadRequestException(error, parameter)\<close>
  and \<^verbatim>\<open>UnauthorizedException({category, message, original_error}, description)\<close>; and
  the \<^verbatim>\<open>TypeError\<close> of the runtime for a method call on a value that has no such
  method.
\<close>

datatype error =
  OidcBadRequestException Oauth2AndOidcErrorsEnum AuthRequestRequiredParamters
| UnauthorizedException string string "string option"
| TypeError

text \<open>
  The parsed \<^verbatim>\<open>URL\<close> object of the platform: everything before the query
  (\<open>url_base\<close>), the query string, the list behind \<^verbatim>\<open>searchParams\<close> and the fragment.
\<close>

record url =
  url_base :: string
  url_query :: "string option"
  url_searchParams :: "(string \<times> string) list"
  url_fragment :: "string option"

text \<open>
  The collaborators of the controller, whose code is outside the source tree, are
  parameters. A call that rejects or throws returns \<open>Inl\<close> with the message of the thrown
  error. \<open>'u\<close> is the account type.
  \<^item> \<open>findOne\<close>: \<^verbatim>\<open>clientsService.findOne(client_id)\<close>;
  \<^item> \<open>loginWithEmail\<close>: \<^verbatim>\<open>accountsService.loginWithEmail(email, password)\<close>;
  \<^item> \<open>createIdToken\<close>, \<open>createAccessToken\<close>: the token signer \<^verbatim>\<open>joseService\<close>;
  \<^item> \<open>uuidv4\<close>: the identifier the one call of \<^verbatim>\<open>uuidv4()\<close> in a request returns;
  \<^item> \<open>newURL\<close>: the platform's URL parser \<^verbatim>\<open>new URL(s)\<close>.
\<close>

record 'u services =
  findOne :: "string \<Rightarrow> string + Client option"
  loginWithEmail :: "string \<Rightarrow> string option \<Rightarrow> string + 'u"
  createIdToken :: "'u \<Rightarrow> Client option \<Rightarrow> ScopeEnum list option \<Rightarrow> string + string"
  createAccessToken :: "'u \<Rightarrow> Client option \<Rightarrow> string + string"
  uuidv4 :: string
  newURL :: "string \<Rightarrow> string + url"

subsection \<open>JavaScript primitives\<close>

text \<open>\<^verbatim>\<open>s.split(sep)\<close> for a one-character separator: never empty, \<^verbatim>\<open>"".split(",")\<close> is \<^verbatim>\<open>[""]\<close>.\<close>

fun split :: "char \<Rightarrow> string \<Rightarrow> string list" where
  "split sep [] = [[]]"
| "split sep (c # cs) =
     (if c = sep then [] # split sep cs
      else (case split sep cs of [] \<Rightarrow> [[c]] | w # ws \<Rightarrow> (c # w) # ws))"

text \<open>Truthiness of an optional string: \<^verbatim>\<open>undefined\<close> and \<^verbatim>\<open>""\<close> are falsy.\<close>

definition truthy :: "string option \<Rightarrow> bool" where
  "truthy v = (case v of None \<Rightarrow> False | Some s \<Rightarrow> s \<noteq> [])"

subsection \<open>\<^verbatim>\<open>GET /auth\<close>\<close>

text \<open>
  Line 244: \<^verbatim>\<open>session.interaction.loginAttempts ? session.interaction.loginAttempts++ : 1\<close>.
  The value of a postfix increment is the value before the increment; the incremented
  number is stored back into the object the expression reads. The result is the value of
  the expression and that object after the evaluation.
\<close>

definition loginAttempts_expr :: "InteractionModel \<Rightarrow> int \<times> InteractionModel" where
  "loginAttempts_expr i =
     (case loginAttempts i of
        None \<Rightarrow> (1, i)
      | Some n \<Rightarrow> if n \<noteq> 0 then (n, i\<lparr>loginAttempts := Some (n + 1)\<rparr>) else (1, i))"

text \<open>The object literal \<^verbatim>\<open>{ loginAttempts: 1 }\<close> of line 239.\<close>

definition fresh_interaction :: InteractionModel where
  "fresh_interaction =
     \<lparr> loginAttempts = Some 1, clientIp = None, client = None, client_id = None,
       redirect_uri = None, scope = None, response_type = None, state = None,
       response_mode = None, nonce = None, display = None, prompt = None, max_age = None,
       ui_locales = None, id_token_hint = None, login_hint = None, acr_values = None,
       code = None, id_token = None, access_token = None \<rparr>"

text \<open>
  \<^verbatim>\<open>getAuth\<close>, lines 198 to 270. The response is the \<^verbatim>\<open>url\<close> of the returned object.
  Line 222 calls \<^verbatim>\<open>client.redirect_uris.split\<close> outside every \<^verbatim>\<open>try\<close>: on a client
  record without a string there, the handler throws the runtime's \<^verbatim>\<open>TypeError\<close>.
  \<open>session1\<close> is the session after lines 235 to 242, \<open>session2\<close> after the evaluation of
  the object literal's first property (line 244), and the assignment of line 243 then
  replaces \<^verbatim>\<open>session.interaction\<close> by the new object.
\<close>

definition getAuth ::
  "'u services \<Rightarrow> Request \<Rightarrow> Session \<Rightarrow> AuthQuery \<Rightarrow> Session \<times> (error + string)" where
  "getAuth srv req session q =
     (let noClientFoundError = OidcBadRequestException unauthorized_client P_client_id in
      case findOne srv (q_client_id q) of
        Inl err \<Rightarrow> (session, Inl noClientFoundError)
      | Inr None \<Rightarrow> (session, Inl noClientFoundError)
      | Inr (Some cl) \<Rightarrow>
          (case redirect_uris cl of
             None \<Rightarrow> (session, Inl TypeError)
           | Some registered \<Rightarrow>
              (let uris = split CHR '','' registered;
                   isRedirectUri = find (\<lambda>uri. q_redirect_uri q = uri) uris
               in if \<not> truthy isRedirectUri
                  then (session, Inl (OidcBadRequestException invalid_request P_redirect_uri))
                  else
                    (let session1 =
                           (case interaction session of
                              Some i \<Rightarrow> session\<lparr>interaction := Some i\<rparr>
                            | None \<Rightarrow> session\<lparr>interaction := Some fresh_interaction\<rparr>);
                         i1 = (case interaction session1 of Some i \<Rightarrow> i | None \<Rightarrow> fresh_interaction);
                         (n, i2) = loginAttempts_expr i1;
                         session2 = session1\<lparr>interaction := Some i2\<rparr>;
                         session3 = session2\<lparr>interaction := Some
                           \<lparr> loginAttempts = Some n,
                             clientIp = (case req_clientIp req of Some v \<Rightarrow> v | None \<Rightarrow> Some ''''),
                             client = Some cl,
                             client_id = Some (q_client_id q),
                             redirect_uri = Some (q_redirect_uri q),
                             scope = Some (q_scope q),
                             response_type = Some (q_response_type q),
                             state = q_state q,
                             response_mode = q_response_mode q,
                             nonce = q_nonce q,
                             display = q_display q,
                             prompt = q_prompt q,
                             max_age = q_max_age q,
                             ui_locales = q_ui_locales q,
                             id_token_hint = q_id_token_hint q,
                             login_hint = q_login_hint q,
                             acr_values = q_acr_values q,
                             code = None, id_token = None, access_token = None \<rparr>\<rparr>
                     in if q_prompt q = Some AuthPrompt_create
                        then (session3, Inr ''/auth/register'')
                        else (session3, Inr ''/auth/login'')))))"

subsection \<open>The platform's \<^verbatim>\<open>URL\<close> object\<close>

text \<open>
  The serializer of \<^verbatim>\<open>application/x-www-form-urlencoded\<close>, which
  \<^verbatim>\<open>searchParams\<close> uses for names and values: a space becomes \<^verbatim>\<open>+\<close>, letters, digits
  and \<^verbatim>\<open>* - . _\<close> stay, every other byte becomes \<^verbatim>\<open>%\<close> and two upper-case hexadecimal
  digits.
\<close>

definition hexdigit :: "nat \<Rightarrow> char" where
  "hexdigit n = ''0123456789ABCDEF'' ! (n mod 16)"

definition urlencode_byte :: "char \<Rightarrow> string" where
  "urlencode_byte c =
     (if c = CHR '' '' then ''+''
      else if c \<in> set ''ABCDEFGHIJKLMNOPQRSTUVWXYZabcdefghijklmnopqrstuvwxyz0123456789*-._''
      then [c]
      else [CHR ''%'', hexdigit (of_char c div 16), hexdigit (of_char c)])"

definition urlencode :: "string \<Rightarrow> string" where
  "urlencode s = concat (map urlencode_byte s)"

fun serialize_params :: "(string \<times> string) list \<Rightarrow> string" where
  "serialize_params [] = []"
| "serialize_params [(k, v)] = urlencode k @ ''='' @ urlencode v"
| "serialize_params ((k, v) # kvs) = urlencode k @ ''='' @ urlencode v @ ''&'' @ serialize_params kvs"

text \<open>
  \<^verbatim>\<open>u.searchParams.append(k, v)\<close>: the pair goes to the end of the list and the query of
  the URL becomes the serialization of the list (\<^verbatim>\<open>null\<close> if that is empty).
\<close>

definition searchParams_append :: "url \<Rightarrow> string \<Rightarrow> string \<Rightarrow> url" where
  "searchParams_append u k v =
     (let l = url_searchParams u @ [(k, v)]; sq = serialize_params l
      in u\<lparr>url_searchParams := l, url_query := (if sq = [] then None else Some sq)\<rparr>)"

text \<open>\<^verbatim>\<open>u.href\<close>.\<close>

definition href :: "url \<Rightarrow> string" where
  "href u =
     url_base u
     @ (case url_query u of None \<Rightarrow> [] | Some qs \<Rightarrow> ''?'' @ qs)
     @ (case url_fragment u of None \<Rightarrow> [] | Some f \<Rightarrow> ''#'' @ f)"

subsection \<open>\<^verbatim>\<open>POST /auth/login\<close>\<close>

text \<open>\<^verbatim>\<open>LoginResponseDto\<close>, the local \<^verbatim>\<open>loginResponse\<close> of \<^verbatim>\<open>postLogin\<close>.\<close>

record LoginResponseDto =
  r_code :: "string option"
  r_id_token :: "string option"
  r_access_token :: "string option"
  r_state :: "string option"
  r_nonce :: "string option"

text \<open>
  What the handler does with the response object: \<^verbatim>\<open>res.redirect(href)\<close>, or nothing
  (the handler returns without sending a response).
\<close>

datatype response = Redirect string | NoResponse

text \<open>
  Lines 376 to 398: the tokens are minted in the order code, id_token, token, each recorded
  on the response and on \<^verbatim>\<open>session.interaction\<close>. The result is the interaction as the
  block leaves it and either the message of the error the signer threw or the response.
\<close>

definition issueTokens ::
  "'u services \<Rightarrow> 'u \<Rightarrow> InteractionModel \<Rightarrow> ResponseTypeEnum list
     \<Rightarrow> InteractionModel \<times> (string + LoginResponseDto)" where
  "issueTokens srv user i rt =
     (let r0 = \<lparr> r_code = None, r_id_token = None, r_access_token = None,
                 r_state = None, r_nonce = None \<rparr>;
          (i1, r1) =
            (if RT_code \<in> set rt
             then (i\<lparr>code := Some (uuidv4 srv)\<rparr>, r0\<lparr>r_code := Some (uuidv4 srv)\<rparr>)
             else (i, r0))
      in case (if RT_id_token \<in> set rt
               then (case createIdToken srv user (client i1) (scope i1) of
                       Inl err \<Rightarrow> Inl err
                     | Inr t \<Rightarrow> Inr (i1\<lparr>id_token := Some t\<rparr>, r1\<lparr>r_id_token := Some t\<rparr>))
               else Inr (i1, r1)) of
           Inl err \<Rightarrow> (i1, Inl err)
         | Inr (i2, r2) \<Rightarrow>
             (case (if RT_token \<in> set rt
                    then (case createAccessToken srv user (client i2) of
                            Inl err \<Rightarrow> Inl err
                          | Inr t \<Rightarrow> Inr (i2\<lparr>access_token := Some t\<rparr>, r2\<lparr>r_access_token := Some t\<rparr>))
                    else Inr (i2, r2)) of
                Inl err \<Rightarrow> (i2, Inl err)
              | Inr (i3, r3) \<Rightarrow>
                  (let r4 = (if truthy (state i3) then r3\<lparr>r_state := state i3\<rparr> else r3);
                       r5 = (if truthy (nonce i3) then r4\<lparr>r_nonce := nonce i3\<rparr> else r4)
                   in (i3, Inr r5))))"

text \<open>\<^verbatim>\<open>if (v) u.searchParams.append(k, v)\<close>.\<close>

definition append_if :: "url \<Rightarrow> string \<Rightarrow> string option \<Rightarrow> url" where
  "append_if u k v =
     (case v of None \<Rightarrow> u | Some s \<Rightarrow> if s \<noteq> [] then searchParams_append u k s else u)"

text \<open>
  Lines 403 to 409: the redirect URL. \<^verbatim>\<open>new URL(undefined)\<close> parses the string
  \<^verbatim>\<open>"undefined"\<close>.
\<close>

definition assemble :: "'u services \<Rightarrow> InteractionModel \<Rightarrow> LoginResponseDto \<Rightarrow> string + url" where
  "assemble srv i r =
     (case newURL srv (case redirect_uri i of None \<Rightarrow> ''undefined'' | Some s \<Rightarrow> s) of
        Inl err \<Rightarrow> Inl err
      | Inr redirectUri \<Rightarrow>
          Inr (append_if (append_if (append_if (append_if (append_if redirectUri
                 ''code'' (r_code r))
                 ''access_token'' (r_access_token r))
                 ''id_token'' (r_id_token r))
                 ''state'' (r_state r))
                 ''nonce'' (r_nonce r)))"

text \<open>The two exceptions of \<^verbatim>\<open>postLogin\<close> (lines 412 and 424).\<close>

definition user_not_found :: "string \<Rightarrow> error" where
  "user_not_found msg =
     UnauthorizedException ''mc.user_not_found'' ''The user could not be found'' (Some msg)"

definition invalid_session :: error where
  "invalid_session =
     UnauthorizedException ''mc.invalid_session'' ''The session could not be found'' None"

text \<open>
  \<^verbatim>\<open>postLogin\<close>, lines 362 to 430. Everything from the credential check to the redirect
  is inside one \<^verbatim>\<open>try\<close>, whose \<^verbatim>\<open>catch\<close> throws \<open>user_not_found\<close> with the message
  of whatever was thrown.
\<close>

definition postLogin ::
  "'u services \<Rightarrow> LoginDto \<Rightarrow> Session \<Rightarrow> Session \<times> (error + response)" where
  "postLogin srv loginDto session =
     (case interaction session of
        None \<Rightarrow> (session, Inl invalid_session)
      | Some i \<Rightarrow>
          (case response_type i of
             None \<Rightarrow> (session, Inl invalid_session)
           | Some rt \<Rightarrow>
               (case dto_email loginDto of
                  None \<Rightarrow> (session, Inr NoResponse)
                | Some e \<Rightarrow>
                    if e = [] then (session, Inr NoResponse)
                    else
                      (let session1 = session\<lparr>email := Some e, password := dto_password loginDto\<rparr>
                       in case loginWithEmail srv e (dto_password loginDto) of
                            Inl err \<Rightarrow> (session1, Inl (user_not_found err))
                          | Inr user \<Rightarrow>
                              (case issueTokens srv user i rt of
                                 (i', Inl err) \<Rightarrow>
                                   (session1\<lparr>interaction := Some i'\<rparr>, Inl (user_not_found err))
                               | (i', Inr loginResponse) \<Rightarrow>
                                   (case assemble srv i' loginResponse of
                                      Inl err \<Rightarrow>
                                        (session1\<lparr>interaction := Some i'\<rparr>, Inl (user_not_found err))
                                    | Inr redirectUri \<Rightarrow>
                                        (session1\<lparr>interaction := Some i'\<rparr>,
                                         Inr (Redirect (href redirectUri)))))))))"

subsection \<open>The pages\<close>

text \<open>
  The object a page handler returns to the view: \<^verbatim>\<open>email\<close>, \<^verbatim>\<open>password\<close>,
  \<^verbatim>\<open>postUri\<close> and the properties of \<^verbatim>\<open>session.interaction\<close> spread into it (none when
  the interaction is \<^verbatim>\<open>undefined\<close>).
\<close>

record ViewModel =
  vm_email :: string
  vm_password :: string
  vm_postUri :: string
  vm_interaction :: "InteractionModel option"

text \<open>\<^verbatim>\<open>getLogin\<close>, lines 339 to 349.\<close>

definition getLogin :: "Session \<Rightarrow> error + ViewModel" where
  "getLogin session =
     (case interaction session of
        None \<Rightarrow> Inl (OidcBadRequestException unauthorized_client P_client_id)
      | Some i \<Rightarrow>
          (case client i of
             None \<Rightarrow> Inl (OidcBadRequestException unauthorized_client P_client_id)
           | Some cl \<Rightarrow>
               Inr \<lparr> vm_email = (case email session of None \<Rightarrow> '''' | Some e \<Rightarrow> e),
                     vm_password = (case password session of None \<Rightarrow> '''' | Some p \<Rightarrow> p),
                     vm_postUri = ''/auth/login'',
                     vm_interaction = Some i \<rparr>))"

text \<open>\<^verbatim>\<open>getRegister\<close>, lines 451 to 456: the handler has no check and no \<^verbatim>\<open>throw\<close>.\<close>

definition getRegister :: "Session \<Rightarrow> error + ViewModel" where
  "getRegister session =
     Inr \<lparr> vm_email = ''@todo - from session and/or cookie'',
           vm_password = ''@todo - from session and/or cookie'',
           vm_postUri = ''/auth/register'',
           vm_interaction = interaction session \<rparr>"

subsection \<open>Example inputs\<close>

text \<open>
  A registry with the client \<^verbatim>\<open>abc\<close>, which registered two redirect URIs, the client
  \<^verbatim>\<open>new\<close>, which registered none, and the client \<^verbatim>\<open>old\<close>, whose record has no
  \<^verbatim>\<open>redirect_uris\<close>; an account
  service with one account; a signer that returns fixed tokens. \<open>example_newURL\<close> is the
  platform's parser on the two registered URIs: \<^verbatim>\<open>new URL("https://app.example/cb")\<close> has
  no query, and \<^verbatim>\<open>new URL("https://app.example/cb?tenant=1")\<close> has the query
  \<^verbatim>\<open>tenant=1\<close>, which \<^verbatim>\<open>searchParams\<close> holds as the pair \<^verbatim>\<open>("tenant", "1")\<close>.
\<close>

definition example_client :: Client where
  "example_client =
     \<lparr> redirect_uris = Some ''https://app.example/cb,https://app.example/cb?tenant=1'' \<rparr>"

definition unconfigured_client :: Client where
  "unconfigured_client = \<lparr> redirect_uris = Some '''' \<rparr>"

definition malformed_client :: Client where
  "malformed_client = \<lparr> redirect_uris = None \<rparr>"

definition example_newURL :: "string \<Rightarrow> string + url" where
  "example_newURL s =
     (if s = ''https://app.example/cb''
      then Inr \<lparr> url_base = ''https://app.example/cb'', url_query = None,
                 url_searchParams = [], url_fragment = None \<rparr>
      else if s = ''https://app.example/cb?tenant=1''
      then Inr \<lparr> url_base = ''https://app.example/cb'', url_query = Some ''tenant=1'',
                 url_searchParams = [(''tenant'', ''1'')], url_fragment = None \<rparr>
      else Inl ''Invalid URL'')"

definition example_findOne :: "string \<Rightarrow> string + Client option" where
  "example_findOne cid =
     (if cid = ''abc'' then Inr (Some example_client)
      else if cid = ''new'' then Inr (Some unconfigured_client)
      else if cid = ''old'' then Inr (Some malformed_client)
      else Inr None)"

definition example_loginWithEmail :: "string \<Rightarrow> string option \<Rightarrow> string + unit" where
  "example_loginWithEmail e p =
     (if e = ''user@example.com'' \<and> p = Some ''secret'' then Inr ()
      else Inl ''wrong credentials'')"

definition example_createIdToken ::
  "unit \<Rightarrow> Client option \<Rightarrow> ScopeEnum list option \<Rightarrow> string + string" where
  "example_createIdToken u c s = Inr ''eyJhbGciOiJSUzI1NiJ9.e30.c2ln''"

definition failing_createIdToken ::
  "unit \<Rightarrow> Client option \<Rightarrow> ScopeEnum list option \<Rightarrow> string + string" where
  "failing_createIdToken u c s = Inl ''signing failed''"

definition example_createAccessToken :: "unit \<Rightarrow> Client option \<Rightarrow> string + string" where
  "example_createAccessToken u c = Inr ''eyJhbGciOiJSUzI1NiJ9.e30.YWNj''"

definition failing_findOne :: "string \<Rightarrow> string + Client option" where
  "failing_findOne cid = Inl ''connection refused''"

definition example_services :: "unit services" where
  "example_services =
     \<lparr> findOne = example_findOne,
       loginWithEmail = example_loginWithEmail,
       createIdToken = example_createIdToken,
       createAccessToken = example_createAccessToken,
       uuidv4 = ''9b1deb4d-3b7d-4bad-9bdf-2b0d7b3dcb6d'',
       newURL = example_newURL \<rparr>"

definition broken_registry :: "unit services" where
  "broken_registry = example_services\<lparr> findOne := failing_findOne \<rparr>"

definition failing_signer :: "unit services" where
  "failing_signer = example_services\<lparr> createIdToken := failing_createIdToken \<rparr>"

definition example_request :: Request where
  "example_request = \<lparr> req_clientIp = None \<rparr>"

definition example_query :: AuthQuery where
  "example_query =
     \<lparr> q_client_id = ''abc'', q_redirect_uri = ''https://app.example/cb'',
       q_scope = [''openid''], q_response_type = [RT_code],
       q_state = None, q_response_mode = None, q_nonce = None, q_display = None,
       q_prompt = None, q_max_age = None, q_ui_locales = None, q_id_token_hint = None,
       q_login_hint = None, q_acr_values = None \<rparr>"

text \<open>The same request with a trailing slash on the redirect URI, for an unknown client,
  and for the client that registered no redirect URI.\<close>

definition unregistered_query :: AuthQuery where
  "unregistered_query = example_query\<lparr> q_redirect_uri := ''https://app.example/cb/'' \<rparr>"

definition unknown_client_query :: AuthQuery where
  "unknown_client_query = example_query\<lparr> q_client_id := ''nobody'' \<rparr>"

definition unconfigured_query :: AuthQuery where
  "unconfigured_query = example_query\<lparr> q_client_id := ''new'' \<rparr>"

text \<open>The same request for the client whose record has no \<^verbatim>\<open>redirect_uris\<close>.\<close>

definition malformed_query :: AuthQuery where
  "malformed_query = example_query\<lparr> q_client_id := ''old'' \<rparr>"

text \<open>The same request with the second registered redirect URI.\<close>

definition tenant_query :: AuthQuery where
  "tenant_query = example_query\<lparr> q_redirect_uri := ''https://app.example/cb?tenant=1'' \<rparr>"

definition empty_session :: Session where
  "empty_session = \<lparr> interaction = None, email = None, password = None \<rparr>"

text \<open>The interaction \<open>example_query\<close> leaves on an empty session, and variants of it.\<close>

definition pending_interaction :: InteractionModel where
  "pending_interaction =
     \<lparr> loginAttempts = Some 1, clientIp = Some '''', client = Some example_client,
       client_id = Some ''abc'', redirect_uri = Some ''https://app.example/cb'',
       scope = Some [''openid''], response_type = Some [RT_code], state = None,
       response_mode = None, nonce = None, display = None, prompt = None, max_age = None,
       ui_locales = None, id_token_hint = None, login_hint = None, acr_values = None,
       code = None, id_token = None, access_token = None \<rparr>"

definition pending_session :: Session where
  "pending_session = \<lparr> interaction = Some pending_interaction, email = None, password = None \<rparr>"

definition hybrid_session :: Session where
  "hybrid_session =
     \<lparr> interaction = Some (pending_interaction\<lparr> response_type := Some [RT_code, RT_id_token] \<rparr>),
       email = None, password = None \<rparr>"

definition tenant_session :: Session where
  "tenant_session =
     \<lparr> interaction =
         Some (pending_interaction\<lparr> redirect_uri := Some ''https://app.example/cb?tenant=1'' \<rparr>),
       email = None, password = None \<rparr>"

definition login_dto :: LoginDto where
  "login_dto = \<lparr> dto_email = Some ''user@example.com'', dto_password = Some ''secret'' \<rparr>"

definition wrong_password_dto :: LoginDto where
  "wrong_password_dto =
     \<lparr> dto_email = Some ''user@example.com'', dto_password = Some ''guess'' \<rparr>"



section \<open>Properties\<close>

lemmas example_defs =
  example_client_def unconfigured_client_def malformed_client_def example_newURL_def example_findOne_def
  example_loginWithEmail_def example_createIdToken_def failing_createIdToken_def
  example_createAccessToken_def failing_findOne_def example_services_def
  broken_registry_def failing_signer_def example_request_def example_query_def
  unregistered_query_def unknown_client_query_def unconfigured_query_def malformed_query_def
  tenant_query_def
  empty_session_def pending_interaction_def pending_session_def hybrid_session_def
  tenant_session_def login_dto_def wrong_password_dto_def

lemmas getAuth_defs =
  getAuth_def truthy_def loginAttempts_expr_def fresh_interaction_def AuthPrompt_create_def
  Let_def

lemmas postLogin_defs =
  postLogin_def issueTokens_def assemble_def append_if_def searchParams_append_def href_def
  truthy_def user_not_found_def invalid_session_def urlencode_def urlencode_byte_def Let_def

subsection \<open>Validation in \<^verbatim>\<open>getAuth\<close>\<close>

lemma truthy_find_iff:
  "truthy (find (\<lambda>uri. x = uri) uris) \<longleftrightarrow> x \<in> set uris \<and> x \<noteq> []"
proof (cases "find (\<lambda>uri. x = uri) uris")
  case None
  then have "x \<notin> set uris" by (auto simp: find_None_iff)
  with None show ?thesis by (simp add: truthy_def)
next
  case (Some y)
  then have "y = x" "x \<in> set uris" by (auto simp: find_Some_iff)
  with Some show ?thesis by (simp add: truthy_def)
qed

lemma getAuth_no_client:
  "findOne srv (q_client_id q) = Inl msg \<or> findOne srv (q_client_id q) = Inr None \<Longrightarrow>
   getAuth srv req session q
     = (session, Inl (OidcBadRequestException unauthorized_client P_client_id))"
  by (auto simp: getAuth_def)

lemma getAuth_no_redirect_uris:
  "findOne srv (q_client_id q) = Inr (Some cl) \<Longrightarrow> redirect_uris cl = None \<Longrightarrow>
   getAuth srv req session q = (session, Inl TypeError)"
  by (simp add: getAuth_def)

lemma getAuth_bad_redirect_uri:
  "findOne srv (q_client_id q) = Inr (Some cl) \<Longrightarrow> redirect_uris cl = Some registered \<Longrightarrow>
   \<not> (q_redirect_uri q \<in> set (split CHR '','' registered) \<and> q_redirect_uri q \<noteq> []) \<Longrightarrow>
   getAuth srv req session q
     = (session, Inl (OidcBadRequestException invalid_request P_redirect_uri))"
  by (simp add: getAuth_def truthy_find_iff Let_def)

lemma getAuth_accepts:
  "findOne srv (q_client_id q) = Inr (Some cl) \<Longrightarrow> redirect_uris cl = Some registered \<Longrightarrow>
   q_redirect_uri q \<in> set (split CHR '','' registered) \<Longrightarrow> q_redirect_uri q \<noteq> [] \<Longrightarrow>
   \<exists>s' u. getAuth srv req session q = (s', Inr u)"
  by (simp add: getAuth_def truthy_find_iff Let_def split: prod.splits)




text \<open>
  Claim C7. Client resolution fails with \<^verbatim>\<open>unauthorized_client\<close> when the registry
  lookup throws and when it finds no client, and the two failures are the same: the whole
  result of \<^verbatim>\<open>getAuth\<close>, exception and session, is equal in the two cases, whatever the
  lookup threw.
\<close>

theorem getAuth_lookup_error_same_as_unknown_client:
  assumes "findOne srv1 (q_client_id q) = Inl msg"
      and "findOne srv2 (q_client_id q) = Inr None"
  shows "getAuth srv1 req session q = getAuth srv2 req session q
       \<and> snd (getAuth srv1 req session q)
           = Inl (OidcBadRequestException unauthorized_client P_client_id)"
  using assms by (simp add: getAuth_no_client)

theorem getAuth_lookup_error_same_as_unknown_client_witness:
  "findOne broken_registry (q_client_id unknown_client_query) = Inl ''connection refused''
   \<and> findOne example_services (q_client_id unknown_client_query) = Inr None
   \<and> getAuth broken_registry example_request empty_session unknown_client_query
       = getAuth example_services example_request empty_session unknown_client_query
   \<and> snd (getAuth broken_registry example_request empty_session unknown_client_query)
       = Inl (OidcBadRequestException unauthorized_client P_client_id)"
proof -
  have f1: "findOne broken_registry (q_client_id unknown_client_query) = Inl ''connection refused''"
    by (simp add: example_defs)
  have f2: "findOne example_services (q_client_id unknown_client_query) = Inr None"
    by (simp add: example_defs)
  show ?thesis
    using f1 f2
      getAuth_lookup_error_same_as_unknown_client [OF f1 f2, of example_request empty_session]
    by blast
qed

text \<open>
  Claim C10. A request that fails validation in \<^verbatim>\<open>getAuth\<close> leaves the session as it
  was: whenever the handler throws, the session it leaves is the session it was given, and
  it does throw, with the session untouched, when the lookup throws, when the client is
  unknown, and when the redirect URI is not registered (be it that it is not among the
  registered entries, or that the client record has no \<^verbatim>\<open>redirect_uris\<close> string).
\<close>

theorem getAuth_validation_error_keeps_session:
  "(getAuth srv req session q = (session', Inl e) \<longrightarrow> session' = session)
   \<and> ((\<exists>msg. findOne srv (q_client_id q) = Inl msg) \<or> findOne srv (q_client_id q) = Inr None
        \<or> (\<exists>cl. findOne srv (q_client_id q) = Inr (Some cl) \<and> redirect_uris cl = None)
        \<or> (\<exists>cl registered. findOne srv (q_client_id q) = Inr (Some cl)
              \<and> redirect_uris cl = Some registered
              \<and> q_redirect_uri q \<notin> set (split CHR '','' registered))
      \<longrightarrow> (\<exists>e'. getAuth srv req session q = (session, Inl e')))"
proof (intro conjI impI)
  assume a: "getAuth srv req session q = (session', Inl e)"
  show "session' = session"
  proof (cases "findOne srv (q_client_id q)")
    case (Inl msg)
    with a getAuth_no_client [of srv q msg req session] show ?thesis by simp
  next
    case (Inr c)
    show ?thesis
    proof (cases c)
      case None
      with Inr a getAuth_no_client [of srv q undefined req session] show ?thesis by simp
    next
      case (Some cl)
      with Inr have f: "findOne srv (q_client_id q) = Inr (Some cl)" by simp
      show ?thesis
      proof (cases "redirect_uris cl")
        case None
        with getAuth_no_redirect_uris [OF f, of req session] a show ?thesis by simp
      next
        case r: (Some registered)
        show ?thesis
        proof (cases "q_redirect_uri q \<in> set (split CHR '','' registered)
                      \<and> q_redirect_uri q \<noteq> []")
          case True
          with getAuth_accepts [OF f r, of req session] a show ?thesis by auto
        next
          case False
          with getAuth_bad_redirect_uri [OF f r, of req session] a show ?thesis by simp
        qed
      qed
    qed
  qed
next
  assume "(\<exists>msg. findOne srv (q_client_id q) = Inl msg) \<or> findOne srv (q_client_id q) = Inr None
        \<or> (\<exists>cl. findOne srv (q_client_id q) = Inr (Some cl) \<and> redirect_uris cl = None)
        \<or> (\<exists>cl registered. findOne srv (q_client_id q) = Inr (Some cl)
              \<and> redirect_uris cl = Some registered
              \<and> q_redirect_uri q \<notin> set (split CHR '','' registered))"
  then consider
      (err) msg where "findOne srv (q_client_id q) = Inl msg"
    | (unknown) "findOne srv (q_client_id q) = Inr None"
    | (missing) cl where "findOne srv (q_client_id q) = Inr (Some cl)" "redirect_uris cl = None"
    | (unregistered) cl registered where "findOne srv (q_client_id q) = Inr (Some cl)"
        "redirect_uris cl = Some registered"
        "q_redirect_uri q \<notin> set (split CHR '','' registered)"
    by blast
  then show "\<exists>e'. getAuth srv req session q = (session, Inl e')"
  proof cases
    case err
    then show ?thesis using getAuth_no_client [of srv q msg req session] by simp
  next
    case unknown
    then show ?thesis using getAuth_no_client [of srv q undefined req session] by simp
  next
    case missing
    then show ?thesis using getAuth_no_redirect_uris [of srv q cl req session] by simp
  next
    case unregistered
    then show ?thesis
      using getAuth_bad_redirect_uri [of srv q cl registered req session] by simp
  qed
qed

text \<open>
  The theorem at a session with a pending interaction and a request whose redirect URI
  is not registered: the handler throws and the pending interaction, with its counter, is
  still on the session.
\<close>

theorem getAuth_validation_error_keeps_session_witness:
  "findOne example_services (q_client_id unregistered_query) = Inr (Some example_client)
   \<and> redirect_uris example_client
       = Some ''https://app.example/cb,https://app.example/cb?tenant=1''
   \<and> q_redirect_uri unregistered_query
       \<notin> set (split CHR '','' ''https://app.example/cb,https://app.example/cb?tenant=1'')
   \<and> snd (getAuth example_services example_request pending_session unregistered_query)
       = Inl (OidcBadRequestException invalid_request P_redirect_uri)
   \<and> fst (getAuth example_services example_request pending_session unregistered_query)
       = pending_session"
proof -
  have f: "findOne example_services (q_client_id unregistered_query) = Inr (Some example_client)"
    by (simp add: example_defs)
  have r: "redirect_uris example_client
       = Some ''https://app.example/cb,https://app.example/cb?tenant=1''"
    by (simp add: example_defs)
  have n: "q_redirect_uri unregistered_query
       \<notin> set (split CHR '','' ''https://app.example/cb,https://app.example/cb?tenant=1'')"
    by (simp add: example_defs)
  have g: "getAuth example_services example_request pending_session unregistered_query
             = (fst (getAuth example_services example_request pending_session unregistered_query),
                Inl (OidcBadRequestException invalid_request P_redirect_uri))"
    using getAuth_bad_redirect_uri [OF f r, of example_request pending_session] n
    by simp
  show ?thesis
    using f r n g
      getAuth_validation_error_keeps_session
        [of example_services example_request pending_session unregistered_query
            "fst (getAuth example_services example_request pending_session unregistered_query)"
            "OidcBadRequestException invalid_request P_redirect_uri"]
    by simp
qed

subsection \<open>The attempt counter\<close>

text \<open>
  Claim C1 says that a second authorization request on a session that holds an interaction
  increments the attempt counter. Evaluated on such a session, whose counter is 1,
  \<^verbatim>\<open>getAuth\<close> accepts the request and leaves the counter at 1: line 244 stores the value
  of the postfix increment, which is the value before the increment, and the object that
  was incremented is replaced by the assignment of line 243.
\<close>

theorem getAuth_second_request_keeps_counter:
  "map_option loginAttempts (interaction pending_session) = Some (Some 1)
   \<and> snd (getAuth example_services example_request pending_session example_query)
       = Inr ''/auth/login''
   \<and> map_option loginAttempts
       (interaction (fst (getAuth example_services example_request pending_session example_query)))
       = Some (Some 1)"
  by (simp add: example_defs getAuth_defs)

subsection \<open>Endpoints that need a pending interaction\<close>

lemma getLogin_requires_interaction:
  "interaction session = None \<Longrightarrow>
   getLogin session = Inl (OidcBadRequestException unauthorized_client P_client_id)"
  by (simp add: getLogin_def)

lemma postLogin_requires_interaction:
  "interaction session = None \<Longrightarrow> postLogin srv loginDto session = (session, Inl invalid_session)"
  by (simp add: postLogin_def)

text \<open>
  Claim C2 says that the login page, the registration page and the login submission all
  fail on a session without a pending interaction. Evaluated on the empty session,
  \<^verbatim>\<open>getLogin\<close> throws \<^verbatim>\<open>unauthorized_client\<close> and \<^verbatim>\<open>postLogin\<close> throws the
  invalid-session exception, but \<^verbatim>\<open>getRegister\<close>, which has no such check, returns its
  view model with nothing spread into it.
\<close>

theorem getRegister_without_interaction:
  "getLogin empty_session = Inl (OidcBadRequestException unauthorized_client P_client_id)
   \<and> postLogin example_services login_dto empty_session
       = (empty_session,
          Inl (UnauthorizedException ''mc.invalid_session'' ''The session could not be found'' None))
   \<and> getRegister empty_session
       = Inr \<lparr> vm_email = ''@todo - from session and/or cookie'',
               vm_password = ''@todo - from session and/or cookie'',
               vm_postUri = ''/auth/register'',
               vm_interaction = None \<rparr>"
  by (simp add: empty_session_def getLogin_def postLogin_def invalid_session_def getRegister_def)

subsection \<open>Token issuance\<close>

lemma issueTokens_fields:
  "issueTokens srv user i rt = (i', x) \<Longrightarrow>
   i' = i\<lparr> code := code i', id_token := id_token i', access_token := access_token i' \<rparr>"
  by (auto simp: issueTokens_def Let_def split: if_splits sum.splits prod.splits)

lemma postLogin_redirect_cases:
  assumes "postLogin srv loginDto session = (session', Inr (Redirect h))"
  obtains i rt e user i' r u where
    "interaction session = Some i" "response_type i = Some rt"
    "dto_email loginDto = Some e" "e \<noteq> []"
    "loginWithEmail srv e (dto_password loginDto) = Inr user"
    "issueTokens srv user i rt = (i', Inr r)" "assemble srv i' r = Inr u" "h = href u"
    "session' = session\<lparr>email := Some e, password := dto_password loginDto, interaction := Some i'\<rparr>"
  using assms
  by (auto simp: postLogin_def Let_def split: option.splits if_splits sum.splits prod.splits)

lemma issueTokens_r_code:
  "issueTokens srv user i rt = (i', Inr r) \<Longrightarrow>
   r_code r = (if RT_code \<in> set rt then Some (uuidv4 srv) else None)"
  by (auto simp: issueTokens_def Let_def split: if_splits sum.splits prod.splits)

lemma issueTokens_r_id_token:
  "issueTokens srv user i rt = (i', Inr r) \<Longrightarrow> (r_id_token r \<noteq> None) = (RT_id_token \<in> set rt)"
  by (auto simp: issueTokens_def Let_def split: if_splits sum.splits prod.splits)

lemma issueTokens_r_access_token:
  "issueTokens srv user i rt = (i', Inr r) \<Longrightarrow> (r_access_token r \<noteq> None) = (RT_token \<in> set rt)"
  by (auto simp: issueTokens_def Let_def split: if_splits sum.splits prod.splits)

lemma issueTokens_r_state:
  "issueTokens srv user i rt = (i', Inr r) \<Longrightarrow>
   r_state r = (if truthy (state i) then state i else None)"
  by (auto simp: issueTokens_def Let_def split: if_splits sum.splits prod.splits)

lemma issueTokens_r_nonce:
  "issueTokens srv user i rt = (i', Inr r) \<Longrightarrow>
   r_nonce r = (if truthy (nonce i) then nonce i else None)"
  by (auto simp: issueTokens_def Let_def split: if_splits sum.splits prod.splits)

lemma issueTokens_id_token_signed:
  "issueTokens srv user i rt = (i', Inr r) \<Longrightarrow> r_id_token r = Some t \<Longrightarrow>
   createIdToken srv user (client i) (scope i) = Inr t"
  by (auto simp: issueTokens_def Let_def split: if_splits sum.splits prod.splits)

lemma issueTokens_access_token_signed:
  "issueTokens srv user i rt = (i', Inr r) \<Longrightarrow> r_access_token r = Some t \<Longrightarrow>
   createAccessToken srv user (client i) = Inr t"
  by (auto simp: issueTokens_def Let_def split: if_splits sum.splits prod.splits)

lemma issueTokens_success:
  assumes "RT_id_token \<in> set rt \<longrightarrow> createIdToken srv user (client i) (scope i) = Inr t1"
      and "RT_token \<in> set rt \<longrightarrow> createAccessToken srv user (client i) = Inr t2"
  shows "issueTokens srv user i rt =
           (i\<lparr> code := (if RT_code \<in> set rt then Some (uuidv4 srv) else code i),
               id_token := (if RT_id_token \<in> set rt then Some t1 else id_token i),
               access_token := (if RT_token \<in> set rt then Some t2 else access_token i) \<rparr>,
            Inr \<lparr> r_code = (if RT_code \<in> set rt then Some (uuidv4 srv) else None),
                  r_id_token = (if RT_id_token \<in> set rt then Some t1 else None),
                  r_access_token = (if RT_token \<in> set rt then Some t2 else None),
                  r_state = (if truthy (state i) then state i else None),
                  r_nonce = (if truthy (nonce i) then nonce i else None) \<rparr>)"
proof (cases "RT_id_token \<in> set rt")
  case True
  with assms(1) have t1: "createIdToken srv user (client i) (scope i) = Inr t1" by simp
  show ?thesis
  proof (cases "RT_token \<in> set rt")
    case True
    with assms(2) have t2: "createAccessToken srv user (client i) = Inr t2" by simp
    from \<open>RT_id_token \<in> set rt\<close> True t1 t2 show ?thesis
      by (simp add: issueTokens_def)
  next
    case False
    with \<open>RT_id_token \<in> set rt\<close> t1 show ?thesis
      by (simp add: issueTokens_def)
  qed
next
  case False
  show ?thesis
  proof (cases "RT_token \<in> set rt")
    case True
    with assms(2) have t2: "createAccessToken srv user (client i) = Inr t2" by simp
    from \<open>RT_id_token \<notin> set rt\<close> True t2 show ?thesis
      by (simp add: issueTokens_def)
  next
    case False
    with \<open>RT_id_token \<notin> set rt\<close> show ?thesis
      by (simp add: issueTokens_def)
  qed
qed

text \<open>
  Claim C8. Issuance succeeds whenever the signer succeeds on the tokens the response type
  asks for, and its result is then this: the response holds the generated identifier as
  code exactly when \<^verbatim>\<open>code\<close> is in the response type, the id_token the signer returned
  exactly when \<^verbatim>\<open>id_token\<close> is, the access_token the signer returned exactly when
  \<^verbatim>\<open>token\<close> is, the state and the nonce of the interaction when they are not empty, and
  nothing else; the same code and tokens are recorded on the interaction. Conversely,
  whenever issuance returns a response, a code, id_token or access_token is on it exactly
  when its member is in the response type, an id_token or access_token on it is what the
  signer returned, and a state or nonce on it is the one of the interaction. For the
  response type \<^verbatim>\<open>[code]\<close> the response holds the code, no id_token and no access_token.
\<close>

theorem issueTokens_grant_result:
  "((RT_id_token \<in> set rt \<longrightarrow> createIdToken srv user (client i) (scope i) = Inr t1)
      \<and> (RT_token \<in> set rt \<longrightarrow> createAccessToken srv user (client i) = Inr t2)
     \<longrightarrow> issueTokens srv user i rt =
           (i\<lparr> code := (if RT_code \<in> set rt then Some (uuidv4 srv) else code i),
               id_token := (if RT_id_token \<in> set rt then Some t1 else id_token i),
               access_token := (if RT_token \<in> set rt then Some t2 else access_token i) \<rparr>,
            Inr \<lparr> r_code = (if RT_code \<in> set rt then Some (uuidv4 srv) else None),
                  r_id_token = (if RT_id_token \<in> set rt then Some t1 else None),
                  r_access_token = (if RT_token \<in> set rt then Some t2 else None),
                  r_state = (if truthy (state i) then state i else None),
                  r_nonce = (if truthy (nonce i) then nonce i else None) \<rparr>))
   \<and> (issueTokens srv user i rt = (i', Inr r) \<longrightarrow>
         (r_code r \<noteq> None \<longleftrightarrow> RT_code \<in> set rt)
       \<and> (r_id_token r \<noteq> None \<longleftrightarrow> RT_id_token \<in> set rt)
       \<and> (r_access_token r \<noteq> None \<longleftrightarrow> RT_token \<in> set rt)
       \<and> (RT_code \<in> set rt \<longrightarrow> r_code r = Some (uuidv4 srv))
       \<and> (\<forall>t. r_id_token r = Some t \<longrightarrow> createIdToken srv user (client i) (scope i) = Inr t)
       \<and> (\<forall>t. r_access_token r = Some t \<longrightarrow> createAccessToken srv user (client i) = Inr t)
       \<and> (r_state r \<noteq> None \<longrightarrow> r_state r = state i)
       \<and> (r_nonce r \<noteq> None \<longrightarrow> r_nonce r = nonce i)
       \<and> (truthy (state i) \<longrightarrow> r_state r = state i)
       \<and> (truthy (nonce i) \<longrightarrow> r_nonce r = nonce i)
       \<and> (set rt = {RT_code} \<longrightarrow>
            r_code r = Some (uuidv4 srv) \<and> r_id_token r = None \<and> r_access_token r = None))"
proof (intro conjI impI)
  assume "(RT_id_token \<in> set rt \<longrightarrow> createIdToken srv user (client i) (scope i) = Inr t1)
      \<and> (RT_token \<in> set rt \<longrightarrow> createAccessToken srv user (client i) = Inr t2)"
  then show "issueTokens srv user i rt =
           (i\<lparr> code := (if RT_code \<in> set rt then Some (uuidv4 srv) else code i),
               id_token := (if RT_id_token \<in> set rt then Some t1 else id_token i),
               access_token := (if RT_token \<in> set rt then Some t2 else access_token i) \<rparr>,
            Inr \<lparr> r_code = (if RT_code \<in> set rt then Some (uuidv4 srv) else None),
                  r_id_token = (if RT_id_token \<in> set rt then Some t1 else None),
                  r_access_token = (if RT_token \<in> set rt then Some t2 else None),
                  r_state = (if truthy (state i) then state i else None),
                  r_nonce = (if truthy (nonce i) then nonce i else None) \<rparr>)"
    using issueTokens_success [of rt srv user i t1 t2] by blast
next
  assume ok: "issueTokens srv user i rt = (i', Inr r)"
  note c = issueTokens_r_code [OF ok]
  note t = issueTokens_r_id_token [OF ok]
  note a = issueTokens_r_access_token [OF ok]
  note s = issueTokens_r_state [OF ok]
  note n = issueTokens_r_nonce [OF ok]
  show "r_code r \<noteq> None \<longleftrightarrow> RT_code \<in> set rt" using c by simp
  show "r_id_token r \<noteq> None \<longleftrightarrow> RT_id_token \<in> set rt" by (rule t)
  show "r_access_token r \<noteq> None \<longleftrightarrow> RT_token \<in> set rt" by (rule a)
  show "r_code r = Some (uuidv4 srv)" if "RT_code \<in> set rt" using c that by simp
  show "\<forall>t. r_id_token r = Some t \<longrightarrow> createIdToken srv user (client i) (scope i) = Inr t"
    using issueTokens_id_token_signed [OF ok] by blast
  show "\<forall>t. r_access_token r = Some t \<longrightarrow> createAccessToken srv user (client i) = Inr t"
    using issueTokens_access_token_signed [OF ok] by blast
  show "r_state r = state i" if "r_state r \<noteq> None" using s that by (simp split: if_splits)
  show "r_nonce r = nonce i" if "r_nonce r \<noteq> None" using n that by (simp split: if_splits)
  show "r_state r = state i" if "truthy (state i)" using s that by simp
  show "r_nonce r = nonce i" if "truthy (nonce i)" using n that by simp
  show "r_code r = Some (uuidv4 srv)" "r_id_token r = None" "r_access_token r = None"
    if rt: "set rt = {RT_code}"
  proof -
    from rt have m: "RT_code \<in> set rt" "RT_id_token \<notin> set rt" "RT_token \<notin> set rt" by simp_all
    from c m show "r_code r = Some (uuidv4 srv)" by simp
    from t m show "r_id_token r = None" by simp
    from a m show "r_access_token r = None" by simp
  qed
qed

text \<open>
  The theorem at the example signer and an interaction with the state \<^verbatim>\<open>xyz\<close> and no
  nonce, for the response type \<^verbatim>\<open>[code, id_token, token]\<close>: the response holds the
  generated code, the two tokens of the signer and the state.
\<close>

theorem issueTokens_grant_result_witness:
  "createIdToken example_services ()
      (client (pending_interaction\<lparr>state := Some ''xyz''\<rparr>))
      (scope (pending_interaction\<lparr>state := Some ''xyz''\<rparr>))
     = Inr ''eyJhbGciOiJSUzI1NiJ9.e30.c2ln''
   \<and> createAccessToken example_services ()
       (client (pending_interaction\<lparr>state := Some ''xyz''\<rparr>))
     = Inr ''eyJhbGciOiJSUzI1NiJ9.e30.YWNj''
   \<and> issueTokens example_services () (pending_interaction\<lparr>state := Some ''xyz''\<rparr>)
       [RT_code, RT_id_token, RT_token]
     = (pending_interaction\<lparr> state := Some ''xyz'',
          code := Some ''9b1deb4d-3b7d-4bad-9bdf-2b0d7b3dcb6d'',
          id_token := Some ''eyJhbGciOiJSUzI1NiJ9.e30.c2ln'',
          access_token := Some ''eyJhbGciOiJSUzI1NiJ9.e30.YWNj'' \<rparr>,
        Inr \<lparr> r_code = Some ''9b1deb4d-3b7d-4bad-9bdf-2b0d7b3dcb6d'',
              r_id_token = Some ''eyJhbGciOiJSUzI1NiJ9.e30.c2ln'',
              r_access_token = Some ''eyJhbGciOiJSUzI1NiJ9.e30.YWNj'',
              r_state = Some ''xyz'', r_nonce = None \<rparr>)"
proof -
  let ?i = "pending_interaction\<lparr>state := Some ''xyz''\<rparr>"
  let ?rt = "[RT_code, RT_id_token, RT_token]"
  have s1: "createIdToken example_services () (client ?i) (scope ?i)
              = Inr ''eyJhbGciOiJSUzI1NiJ9.e30.c2ln''"
    by (simp add: example_defs)
  have s2: "createAccessToken example_services () (client ?i)
              = Inr ''eyJhbGciOiJSUzI1NiJ9.e30.YWNj''"
    by (simp add: example_defs)
  have u: "uuidv4 example_services = ''9b1deb4d-3b7d-4bad-9bdf-2b0d7b3dcb6d''"
    by (simp add: example_defs)
  have st: "truthy (state ?i)" "\<not> truthy (nonce ?i)" "state ?i = Some ''xyz''"
    by (simp_all add: truthy_def example_defs)
  have m: "RT_code \<in> set ?rt" "RT_id_token \<in> set ?rt" "RT_token \<in> set ?rt"
    by simp_all
  have "issueTokens example_services () ?i ?rt =
           (?i\<lparr> code := (if RT_code \<in> set ?rt then Some (uuidv4 example_services) else code ?i),
               id_token := (if RT_id_token \<in> set ?rt
                            then Some ''eyJhbGciOiJSUzI1NiJ9.e30.c2ln'' else id_token ?i),
               access_token := (if RT_token \<in> set ?rt
                                then Some ''eyJhbGciOiJSUzI1NiJ9.e30.YWNj'' else access_token ?i) \<rparr>,
            Inr \<lparr> r_code = (if RT_code \<in> set ?rt then Some (uuidv4 example_services) else None),
                  r_id_token = (if RT_id_token \<in> set ?rt
                                then Some ''eyJhbGciOiJSUzI1NiJ9.e30.c2ln'' else None),
                  r_access_token = (if RT_token \<in> set ?rt
                                    then Some ''eyJhbGciOiJSUzI1NiJ9.e30.YWNj'' else None),
                  r_state = (if truthy (state ?i) then state ?i else None),
                  r_nonce = (if truthy (nonce ?i) then nonce ?i else None) \<rparr>)"
    using s1 s2
      issueTokens_grant_result [of ?rt example_services "()" ?i
        "''eyJhbGciOiJSUzI1NiJ9.e30.c2ln''" "''eyJhbGciOiJSUzI1NiJ9.e30.YWNj''"]
    by blast
  with s1 s2 u st m show ?thesis by simp
qed

text \<open>
  Claim C5. With both \<^verbatim>\<open>code\<close> and \<^verbatim>\<open>id_token\<close> in the response type, valid
  credentials and a signer that throws on the id_token, \<^verbatim>\<open>postLogin\<close> throws, with the
  signer's message as the original error, and the session it leaves has the generated
  code recorded on the interaction; no id_token and no access_token is recorded by the
  call, and nothing else of the interaction changes.
\<close>

theorem postLogin_signer_failure_keeps_code:
  assumes "interaction session = Some i"
      and "response_type i = Some rt"
      and "RT_code \<in> set rt"
      and "RT_id_token \<in> set rt"
      and "dto_email loginDto = Some e"
      and "e \<noteq> []"
      and "loginWithEmail srv e (dto_password loginDto) = Inr user"
      and "createIdToken srv user (client i) (scope i) = Inl msg"
  shows "postLogin srv loginDto session
           = (session\<lparr> email := Some e, password := dto_password loginDto,
                       interaction := Some (i\<lparr> code := Some (uuidv4 srv) \<rparr>) \<rparr>,
              Inl (user_not_found msg))"
  using assms by (simp add: postLogin_def issueTokens_def Let_def)

theorem postLogin_signer_failure_keeps_code_witness:
  "interaction hybrid_session
     = Some (pending_interaction\<lparr> response_type := Some [RT_code, RT_id_token] \<rparr>)
   \<and> dto_email login_dto = Some ''user@example.com''
   \<and> loginWithEmail failing_signer ''user@example.com'' (dto_password login_dto) = Inr ()
   \<and> createIdToken failing_signer () (Some example_client) (Some [''openid''])
       = Inl ''signing failed''
   \<and> postLogin failing_signer login_dto hybrid_session
       = (\<lparr> interaction =
              Some (pending_interaction\<lparr> response_type := Some [RT_code, RT_id_token],
                      code := Some ''9b1deb4d-3b7d-4bad-9bdf-2b0d7b3dcb6d'' \<rparr>),
            email = Some ''user@example.com'', password = Some ''secret'' \<rparr>,
          Inl (user_not_found ''signing failed''))"
proof -
  let ?i = "pending_interaction\<lparr> response_type := Some [RT_code, RT_id_token] \<rparr>"
  have a1: "interaction hybrid_session = Some ?i"
    by (simp add: hybrid_session_def)
  have a2: "response_type ?i = Some [RT_code, RT_id_token]"
    by simp
  have a3: "RT_code \<in> set [RT_code, RT_id_token]" and a4: "RT_id_token \<in> set [RT_code, RT_id_token]"
    by simp_all
  have a5: "dto_email login_dto = Some ''user@example.com''"
    by (simp add: login_dto_def)
  have a6: "''user@example.com'' \<noteq> []"
    by simp
  have a7: "loginWithEmail failing_signer ''user@example.com'' (dto_password login_dto) = Inr ()"
    by (simp add: example_defs)
  have a8: "createIdToken failing_signer () (client ?i) (scope ?i) = Inl ''signing failed''"
    by (simp add: example_defs)
  have a8': "createIdToken failing_signer () (Some example_client) (Some [''openid''])
       = Inl ''signing failed''"
    by (simp add: example_defs)
  show ?thesis
    using a1 a5 a7 a8' postLogin_signer_failure_keeps_code [OF a1 a2 a3 a4 a5 a6 a7 a8]
    by (simp add: example_defs)
qed

text \<open>
  Claim C4 says that a signer failure reaches the caller as a server error, of a category
  other than the authentication error of a credential mismatch. Evaluated with a signer
  that throws on the id_token and valid credentials, and then with a wrong password,
  \<^verbatim>\<open>postLogin\<close> throws the same \<^verbatim>\<open>UnauthorizedException\<close> of category
  \<^verbatim>\<open>mc.user_not_found\<close> both times: the \<^verbatim>\<open>catch\<close> of line 411 encloses the issuance and
  turns the error that line 389 rethrows into the exception of a failed login. Only the
  \<^verbatim>\<open>original_error\<close> text differs.
\<close>

theorem postLogin_signer_failure_reported_as_user_not_found:
  "loginWithEmail failing_signer ''user@example.com'' (dto_password login_dto) = Inr ()
   \<and> snd (postLogin failing_signer login_dto hybrid_session)
       = Inl (UnauthorizedException ''mc.user_not_found'' ''The user could not be found''
               (Some ''signing failed''))
   \<and> snd (postLogin failing_signer wrong_password_dto hybrid_session)
       = Inl (UnauthorizedException ''mc.user_not_found'' ''The user could not be found''
               (Some ''wrong credentials''))"
  by (simp add: example_defs postLogin_def issueTokens_def user_not_found_def Let_def)

subsection \<open>The session after the redirect\<close>

lemma postLogin_pending_session:
  "postLogin example_services login_dto pending_session
     = (\<lparr> interaction =
            Some (pending_interaction\<lparr> code := Some ''9b1deb4d-3b7d-4bad-9bdf-2b0d7b3dcb6d'' \<rparr>),
          email = Some ''user@example.com'', password = Some ''secret'' \<rparr>,
        Inr (Redirect ''https://app.example/cb?code=9b1deb4d-3b7d-4bad-9bdf-2b0d7b3dcb6d''))"
  by (simp add: example_defs postLogin_defs)

text \<open>
  Claim C3 says that the interaction is cleared once the grant is completed and the
  redirect is issued. It is not: after the login on the example session, which redirects
  to the client, the session still holds an interaction.
\<close>

theorem postLogin_interaction_not_cleared:
  "snd (postLogin example_services login_dto pending_session)
     = Inr (Redirect ''https://app.example/cb?code=9b1deb4d-3b7d-4bad-9bdf-2b0d7b3dcb6d'')
   \<and> interaction (fst (postLogin example_services login_dto pending_session)) \<noteq> None"
  by (simp add: postLogin_pending_session)

text \<open>
  Claim C3 as amended: \<^verbatim>\<open>postLogin\<close> never clears the interaction. After the redirect the
  session holds the interaction it held before, changed in nothing but the code, id_token
  and access_token recorded on it.
\<close>

theorem postLogin_keeps_interaction:
  assumes "postLogin srv loginDto session = (session', Inr (Redirect h))"
  shows "\<exists>i i'. interaction session = Some i \<and> interaction session' = Some i'
           \<and> i' = i\<lparr> code := code i', id_token := id_token i', access_token := access_token i' \<rparr>"
  using assms
  by (elim postLogin_redirect_cases) (auto dest: issueTokens_fields)

theorem postLogin_keeps_interaction_witness:
  "postLogin example_services login_dto pending_session
     = (\<lparr> interaction =
            Some (pending_interaction\<lparr> code := Some ''9b1deb4d-3b7d-4bad-9bdf-2b0d7b3dcb6d'' \<rparr>),
          email = Some ''user@example.com'', password = Some ''secret'' \<rparr>,
        Inr (Redirect ''https://app.example/cb?code=9b1deb4d-3b7d-4bad-9bdf-2b0d7b3dcb6d''))
   \<and> (\<exists>i i'. interaction pending_session = Some i
         \<and> interaction \<lparr> interaction =
            Some (pending_interaction\<lparr> code := Some ''9b1deb4d-3b7d-4bad-9bdf-2b0d7b3dcb6d'' \<rparr>),
          email = Some ''user@example.com'', password = Some ''secret'' \<rparr> = Some i'
         \<and> i' = i\<lparr> code := code i', id_token := id_token i', access_token := access_token i' \<rparr>)"
proof -
  have e: "postLogin example_services login_dto pending_session
     = (\<lparr> interaction =
            Some (pending_interaction\<lparr> code := Some ''9b1deb4d-3b7d-4bad-9bdf-2b0d7b3dcb6d'' \<rparr>),
          email = Some ''user@example.com'', password = Some ''secret'' \<rparr>,
        Inr (Redirect ''https://app.example/cb?code=9b1deb4d-3b7d-4bad-9bdf-2b0d7b3dcb6d''))"
    by (rule postLogin_pending_session)
  show ?thesis
    using e postLogin_keeps_interaction [OF e] by blast
qed

subsection \<open>The redirect URL\<close>















end
